theory Spec2Isabelle
  imports Main
begin

section \<open>ts-result: the Result interface, its classes Ok and Err, and the adapters\<close>

subsection \<open>What a JavaScript function call can do\<close>

text \<open>
  A \<^verbatim>\<open>throw\<close> statement (and a rejected promise) carries an arbitrary JavaScript value.
  The library itself throws \<^verbatim>\<open>new Error(message)\<close>; user code may throw an Error object or
  anything else (a string, a number, ...). An Error object is represented by its message.
\<close>

datatype 'x thrown = ErrorObject string | NonError 'x

fun isErrorObject :: "'x thrown \<Rightarrow> bool" where
  "isErrorObject (ErrorObject message) = True"
| "isErrorObject (NonError x) = False"

text \<open>
  A call of a user-supplied function runs in a world of type \<open>'s\<close> (everything the function
  can read and write), ends by returning a value (\<open>Inr\<close>) or by throwing (\<open>Inl\<close>), and leaves
  a new world behind.
\<close>

type_synonym ('s, 'x, 'a) comp = "'s \<Rightarrow> ('x thrown + 'a) \<times> 's"

definition returns :: "'a \<Rightarrow> ('s, 'x, 'a) comp" where
  "returns a = (\<lambda>s. (Inr a, s))"

definition throws :: "'x thrown \<Rightarrow> ('s, 'x, 'a) comp" where
  "throws x = (\<lambda>s. (Inl x, s))"

text \<open>Evaluate \<open>c\<close>, then go on with its value; a throw of \<open>c\<close> propagates.\<close>

definition call :: "('s, 'x, 'a) comp \<Rightarrow> ('a \<Rightarrow> ('s, 'x, 'b) comp) \<Rightarrow> ('s, 'x, 'b) comp" where
  "call c k = (\<lambda>s. case c s of (Inl x, s') \<Rightarrow> (Inl x, s') | (Inr a, s') \<Rightarrow> k a s')"

text \<open>\<^verbatim>\<open>try { c } catch (error) { h }\<close>\<close>

definition try_catch ::
  "('s, 'x, 'a) comp \<Rightarrow> ('x thrown \<Rightarrow> ('s, 'x, 'a) comp) \<Rightarrow> ('s, 'x, 'a) comp" where
  "try_catch c h = (\<lambda>s. case c s of (Inl x, s') \<Rightarrow> h x s' | (Inr a, s') \<Rightarrow> (Inr a, s'))"

text \<open>
  The call counter of the tests' style: the wrapped function does what \<open>f\<close> does and
  increments a counter kept beside the world each time it is invoked.
\<close>

definition counting :: "('a \<Rightarrow> ('s, 'x, 'b) comp) \<Rightarrow> 'a \<Rightarrow> (nat \<times> 's, 'x, 'b) comp" where
  "counting f a = (\<lambda>(n, s). case f a s of (r, s') \<Rightarrow> (r, (Suc n, s')))"

subsection \<open>The two classes\<close>

text \<open>
  \<^verbatim>\<open>class Ok<T>  { #value: T; constructor(value) { this.#value = value; } ... }\<close>
  \<^verbatim>\<open>class Err<E> { #error: E; constructor(error) { this.#error = error; } ... }\<close>
  An instance of the interface \<^verbatim>\<open>Result<T, E>\<close> is an instance of one of the two classes:
  the class tag together with the one private field.
\<close>

datatype ('t, 'e) Result = Ok 't | Err 'e

text \<open>
  The nine methods, one equation per class (\<^verbatim>\<open>and\<close> and \<^verbatim>\<open>map\<close> are renamed, the first being
  a keyword and the second a list function). Methods that take a function call it in the
  world; \<^verbatim>\<open>unwrap\<close> and \<^verbatim>\<open>unwrapError\<close> return or throw. Type parameters are erased at
  run time: where a method of Err returns \<^verbatim>\<open>this\<close> at another type, the same \<open>Err error\<close> is
  returned, and the union \<^verbatim>\<open>E | E2\<close> of the interface is the one error type \<open>'e\<close>.
\<close>

fun andRes :: "('t, 'e) Result \<Rightarrow> ('u, 'e) Result \<Rightarrow> ('u, 'e) Result" where
  "andRes (Ok value) res = res"
| "andRes (Err error) _ = Err error"

fun andThen ::
  "('t, 'e) Result \<Rightarrow> ('t \<Rightarrow> ('s, 'x, ('u, 'e) Result) comp) \<Rightarrow> ('s, 'x, ('u, 'e) Result) comp" where
  "andThen (Ok value) fn = fn value"
| "andThen (Err error) _ = returns (Err error)"

fun isOk :: "('t, 'e) Result \<Rightarrow> bool" where
  "isOk (Ok value) = True"
| "isOk (Err error) = False"

fun isError :: "('t, 'e) Result \<Rightarrow> bool" where
  "isError (Ok value) = False"
| "isError (Err error) = True"

fun mapRes ::
  "('t, 'e) Result \<Rightarrow> ('t \<Rightarrow> ('s, 'x, 'u) comp) \<Rightarrow> ('s, 'x, ('u, 'e) Result) comp" where
  "mapRes (Ok value) fn = call (fn value) (\<lambda>u. returns (Ok u))"
| "mapRes (Err error) _ = returns (Err error)"

fun mapError ::
  "('t, 'e) Result \<Rightarrow> ('e \<Rightarrow> ('s, 'x, 'e2) comp) \<Rightarrow> ('s, 'x, ('t, 'e2) Result) comp" where
  "mapError (Ok value) _ = returns (Ok value)"
| "mapError (Err error) fn = call (fn error) (\<lambda>e2. returns (Err e2))"

fun unwrap :: "('t, 'e) Result \<Rightarrow> 'x thrown + 't" where
  "unwrap (Ok value) = Inr value"
| "unwrap (Err error) = Inl (ErrorObject ''Called unwrap on an Err value'')"

fun unwrapError :: "('t, 'e) Result \<Rightarrow> 'x thrown + 'e" where
  "unwrapError (Ok value) = Inl (ErrorObject ''Called unwrapError on an Ok value'')"
| "unwrapError (Err error) = Inr error"

fun unwrapOr :: "('t, 'e) Result \<Rightarrow> 't \<Rightarrow> 't" where
  "unwrapOr (Ok value) _ = value"
| "unwrapOr (Err error) defaultValue = defaultValue"

subsection \<open>The adapters\<close>

text \<open>
  \<^verbatim>\<open>function run(fn) { try { return new Ok(fn()); } catch (error) { return new Err(error as Error); } }\<close>
  The cast \<^verbatim>\<open>error as Error\<close> is erased at compile time: the caught value is stored as it is.
\<close>

definition run :: "('s, 'x, 't) comp \<Rightarrow> ('s, 'x, ('t, 'x thrown) Result) comp" where
  "run fn = try_catch (call fn (\<lambda>value. returns (Ok value))) (\<lambda>error. returns (Err error))"

text \<open>
  A promise is represented by the state it settles in; \<open>Pending\<close> is a promise that never
  settles. \<^verbatim>\<open>then\<close> and \<^verbatim>\<open>catch\<close> are given for handlers that return a plain (non-thenable)
  value and do not throw, which is what the two arrow functions of \<^verbatim>\<open>runAsync\<close> are.
\<close>

datatype ('x, 'a) promise = Fulfilled 'a | Rejected "'x thrown" | Pending

fun then_promise :: "('x, 'a) promise \<Rightarrow> ('a \<Rightarrow> 'b) \<Rightarrow> ('x, 'b) promise" where
  "then_promise (Fulfilled value) onFulfilled = Fulfilled (onFulfilled value)"
| "then_promise (Rejected reason) _ = Rejected reason"
| "then_promise Pending _ = Pending"

fun catch_promise :: "('x, 'a) promise \<Rightarrow> ('x thrown \<Rightarrow> 'a) \<Rightarrow> ('x, 'a) promise" where
  "catch_promise (Fulfilled value) _ = Fulfilled value"
| "catch_promise (Rejected reason) onRejected = Fulfilled (onRejected reason)"
| "catch_promise Pending _ = Pending"

text \<open>\<^verbatim>\<open>await p\<close>: the value, the thrown rejection reason, or no return at all.\<close>

fun await :: "('x, 'a) promise \<Rightarrow> ('x thrown + 'a) option" where
  "await (Fulfilled value) = Some (Inr value)"
| "await (Rejected reason) = Some (Inl reason)"
| "await Pending = None"

text \<open>
  \<^verbatim>\<open>async function runAsync(fn) { return fn().then((value) => new Ok(value)).catch((error) => new Err(error as Error)); }\<close>
  The call \<^verbatim>\<open>fn()\<close> stands outside any handler: being in the body of an \<^verbatim>\<open>async\<close> function,
  a synchronous throw of \<open>fn\<close> rejects the promise that \<^verbatim>\<open>runAsync\<close> returns. Otherwise the
  returned promise settles as the chained one does.
\<close>

definition runAsync ::
  "('s, 'x, ('x, 't) promise) comp \<Rightarrow> 's \<Rightarrow> ('x, ('t, 'x thrown) Result) promise \<times> 's" where
  "runAsync fn = (\<lambda>s. case fn s of
      (Inl x, s') \<Rightarrow> (Rejected x, s')
    | (Inr p, s') \<Rightarrow> (catch_promise (then_promise p Ok) Err, s'))"

subsection \<open>An instance over time\<close>

text \<open>
  The nine operations of the interface as data, and one call of an operation on a receiver:
  what the call returns or throws, the receiver as the method body leaves it, and the world
  afterwards. \<^verbatim>\<open>#value\<close> and \<^verbatim>\<open>#error\<close> are private and are assigned in the constructors only;
  no method body writes to \<^verbatim>\<open>this\<close>, and a callback has no access to the private field.
\<close>

datatype ('t, 'e, 'u, 'e2, 's, 'x) method_call =
    CallAnd "('u, 'e) Result"
  | CallAndThen "'t \<Rightarrow> ('s, 'x, ('u, 'e) Result) comp"
  | CallIsOk
  | CallIsError
  | CallMap "'t \<Rightarrow> ('s, 'x, 'u) comp"
  | CallMapError "'e \<Rightarrow> ('s, 'x, 'e2) comp"
  | CallUnwrap
  | CallUnwrapError
  | CallUnwrapOr 't

datatype ('t, 'e, 'u, 'e2) returned =
    RetResult "('u, 'e) Result"
  | RetMapError "('t, 'e2) Result"
  | RetBool bool
  | RetValue 't
  | RetError 'e

fun invoke ::
  "('t, 'e, 'u, 'e2, 's, 'x) method_call \<Rightarrow> ('t, 'e) Result \<Rightarrow> 's \<Rightarrow>
     ('x thrown + ('t, 'e, 'u, 'e2) returned) \<times> ('t, 'e) Result \<times> 's" where
  "invoke (CallAnd res) this s = (Inr (RetResult (andRes this res)), this, s)"
| "invoke (CallAndThen fn) this s =
     (case andThen this fn s of (r, s') \<Rightarrow> (map_sum id RetResult r, this, s'))"
| "invoke CallIsOk this s = (Inr (RetBool (isOk this)), this, s)"
| "invoke CallIsError this s = (Inr (RetBool (isError this)), this, s)"
| "invoke (CallMap fn) this s =
     (case mapRes this fn s of (r, s') \<Rightarrow> (map_sum id RetResult r, this, s'))"
| "invoke (CallMapError fn) this s =
     (case mapError this fn s of (r, s') \<Rightarrow> (map_sum id RetMapError r, this, s'))"
| "invoke CallUnwrap this s = (map_sum id RetValue (unwrap this), this, s)"
| "invoke CallUnwrapError this s = (map_sum id RetError (unwrapError this), this, s)"
| "invoke (CallUnwrapOr defaultValue) this s = (Inr (RetValue (unwrapOr this defaultValue)), this, s)"

text \<open>
  A caller's sequence of calls on one instance; a call that throws does not end the
  sequence (the caller may catch and go on).
\<close>

fun invoke_all ::
  "('t, 'e, 'u, 'e2, 's, 'x) method_call list \<Rightarrow> ('t, 'e) Result \<Rightarrow> 's \<Rightarrow> ('t, 'e) Result \<times> 's" where
  "invoke_all [] this s = (this, s)"
| "invoke_all (c # cs) this s = (case invoke c this s of (_, this', s') \<Rightarrow> invoke_all cs this' s')"

section \<open>Extraction and the predicates\<close>

text \<open>
  C7. For every payload \<open>v\<close>: \<open>Ok(v).unwrap()\<close> returns \<open>v\<close> and does not throw,
  \<open>Ok(v).unwrapOr(d)\<close> returns \<open>v\<close> for every default \<open>d\<close>, \<open>Ok(v).isOk()\<close> is true and
  \<open>Ok(v).isError()\<close> is false.
\<close>

theorem Ok_unwrap_unwrapOr_predicates:
  "unwrap (Ok v) = Inr v \<and> unwrapOr (Ok v) d = v \<and> isOk (Ok v) \<and> \<not> isError (Ok v)"
  by simp

text \<open>
  C8. For every error \<open>e\<close>: \<open>Err(e).unwrapError()\<close> returns \<open>e\<close> and does not throw,
  \<open>Err(e).unwrapOr(d)\<close> returns \<open>d\<close> for every default \<open>d\<close>, \<open>Err(e).isError()\<close> is true and
  \<open>Err(e).isOk()\<close> is false.
\<close>

theorem Err_unwrapError_unwrapOr_predicates:
  "unwrapError (Err e) = Inr e \<and> unwrapOr (Err e) d = d \<and> isError (Err e) \<and> \<not> isOk (Err e)"
  by simp

section \<open>Combination and chaining\<close>

text \<open>
  C6. For every payload \<open>v\<close> and Result \<open>r\<close>, \<open>Ok(v).and(r)\<close> is \<open>r\<close> itself; for every
  error \<open>e\<close> and Result \<open>r\<close>, \<open>Err(e).and(r)\<close> is the Err wrapping \<open>e\<close>, whatever \<open>r\<close> is.
\<close>

theorem and_forwards_or_short_circuits:
  "andRes (Ok v) r = r \<and> andRes (Err e) r' = Err e"
  by simp

text \<open>
  C1. For every payload \<open>v\<close> and function \<open>f\<close> returning a Result, \<open>Ok(v).andThen(f)\<close> is the
  call \<open>f(v)\<close>: same outcome, same effect, \<open>f\<close> invoked once. For every error \<open>e\<close> and
  function \<open>g\<close>, \<open>Err(e).andThen(g)\<close> returns the Err wrapping \<open>e\<close>, the world is untouched and
  a call counter on \<open>g\<close> does not move.
\<close>

theorem andThen_applies_or_short_circuits:
  "andThen (Ok v) f = f v
   \<and> fst (snd (andThen (Ok v) (counting f) (n, s))) = Suc n
   \<and> andThen (Err e) g t = (Inr (Err e), t)
   \<and> andThen (Err e) (counting g) (m, t) = (Inr (Err e), (m, t))"
  by (simp add: returns_def counting_def split: prod.split)

section \<open>Transformation\<close>

text \<open>
  C4. For every payload \<open>v\<close> and function \<open>f\<close>: when the call \<open>f(v)\<close> returns \<open>u\<close>,
  \<open>Ok(v).map(f)\<close> returns a new Ok wrapping \<open>u\<close> (with the effect of that one call), so
  \<open>Ok(v).map(f).unwrap()\<close> returns \<open>u\<close>; for a pure \<open>h\<close> this is \<open>Ok(h(v))\<close>. For every error
  \<open>e\<close> and function \<open>g\<close>, \<open>Err(e).map(g)\<close> returns the Err wrapping \<open>e\<close>, the world is
  untouched and a call counter on \<open>g\<close> does not move.
\<close>

theorem map_applies_or_short_circuits:
  "(f v s = (Inr u, s') \<longrightarrow>
      mapRes (Ok v :: ('t, 'e) Result) f s = (Inr (Ok u), s')
      \<and> call (mapRes (Ok v :: ('t, 'e) Result) f) (\<lambda>r w. (unwrap r, w)) s = (Inr u, s'))
   \<and> mapRes (Ok v') (\<lambda>a. returns (h a)) t' = (Inr (Ok (h v')), t')
   \<and> mapRes (Err e) g t = (Inr (Err e), t)
   \<and> mapRes (Err e) (counting g) (m, t) = (Inr (Err e), (m, t))"
  by (simp add: returns_def call_def)

theorem map_applies_or_short_circuits_witness:
  "(\<lambda>a. returns (a + 1)) (42::int) () = (Inr (43::int) :: unit thrown + int, ())
   \<and> mapRes (Ok (42::int) :: (int, string) Result) (\<lambda>a. returns (a + 1)) ()
       = (Inr (Ok 43) :: unit thrown + (int, string) Result, ())
   \<and> call (mapRes (Ok (42::int) :: (int, string) Result) (\<lambda>a. returns (a + 1)))
        (\<lambda>r w. (unwrap r, w)) () = (Inr 43 :: unit thrown + int, ())"
  using map_applies_or_short_circuits
    [where ?'e = string, THEN conjunct1,
     of "\<lambda>a. returns (a + 1) :: (unit, unit, int) comp" "42::int" "()" "43::int" "()"]
  by (simp add: returns_def)

text \<open>
  C5. For every error \<open>e\<close> and function \<open>f\<close>: when the call \<open>f(e)\<close> returns \<open>e2\<close>,
  \<open>Err(e).mapError(f)\<close> returns a new Err wrapping \<open>e2\<close>, so
  \<open>Err(e).mapError(f).unwrapError()\<close> returns \<open>e2\<close>; for a pure \<open>h\<close> this is \<open>Err(h(e))\<close>. For
  every payload \<open>v\<close> and function \<open>g\<close>, \<open>Ok(v).mapError(g)\<close> returns the Ok wrapping \<open>v\<close>, the
  world is untouched and a call counter on \<open>g\<close> does not move.
\<close>

theorem mapError_applies_or_passes_through:
  "(f e s = (Inr e2, s') \<longrightarrow>
      mapError (Err e :: ('t, 'e) Result) f s = (Inr (Err e2), s')
      \<and> call (mapError (Err e :: ('t, 'e) Result) f) (\<lambda>r w. (unwrapError r, w)) s = (Inr e2, s'))
   \<and> mapError (Err e') (\<lambda>a. returns (h a)) t' = (Inr (Err (h e')), t')
   \<and> mapError (Ok v) g t = (Inr (Ok v), t)
   \<and> mapError (Ok v) (counting g) (m, t) = (Inr (Ok v), (m, t))"
  by (simp add: returns_def call_def)

theorem mapError_applies_or_passes_through_witness:
  "(\<lambda>_. returns ''New error'') ''Something went wrong'' ()
       = (Inr ''New error'' :: unit thrown + string, ())
   \<and> mapError (Err ''Something went wrong'' :: (int, string) Result) (\<lambda>_. returns ''New error'') ()
       = (Inr (Err ''New error'') :: unit thrown + (int, string) Result, ())
   \<and> call (mapError (Err ''Something went wrong'' :: (int, string) Result)
             (\<lambda>_. returns ''New error''))
        (\<lambda>r w. (unwrapError r, w)) () = (Inr ''New error'' :: unit thrown + string, ())"
  using mapError_applies_or_passes_through
    [where ?'t = int, THEN conjunct1,
     of "\<lambda>_. returns ''New error'' :: (unit, unit, string) comp" "''Something went wrong''" "()"
        "''New error''" "()"]
  by (simp add: returns_def)

section \<open>The adapters\<close>

text \<open>
  C3. \<open>run(fn)\<close> invokes \<open>fn\<close> exactly once (the world after \<open>run\<close> is the world after
  one call of \<open>fn\<close>, and a call counter on \<open>fn\<close> advances by one) and never throws; when
  \<open>fn\<close> returns \<open>v\<close> the result is the Ok wrapping \<open>v\<close>, when \<open>fn\<close> throws \<open>x\<close> the result is
  the Err wrapping \<open>x\<close>. Awaiting \<open>runAsync(fn)\<close> yields the Ok wrapping the value the
  promise of \<open>fn\<close> is fulfilled with, and the Err wrapping the reason it is rejected with.
\<close>

theorem run_and_runAsync_capture_the_outcome:
  "(fn1 s1 = (Inr v1, s1') \<longrightarrow> run fn1 s1 = (Inr (Ok v1), s1'))
   \<and> (fn2 s2 = (Inl x2, s2') \<longrightarrow> run fn2 s2 = (Inr (Err x2), s2'))
   \<and> snd (run fn s) = snd (fn s)
   \<and> fst (snd (run (counting (\<lambda>_. fn) ()) (n, s))) = Suc n
   \<and> (\<exists>r. fst (run fn s) = Inr r)
   \<and> (fn3 s3 = (Inr (Fulfilled v3), s3') \<longrightarrow>
        await (fst (runAsync fn3 s3)) = Some (Inr (Ok v3)))
   \<and> (fn4 s4 = (Inr (Rejected x4), s4') \<longrightarrow>
        await (fst (runAsync fn4 s4)) = Some (Inr (Err x4)))"
  by (auto simp add: run_def runAsync_def try_catch_def call_def returns_def counting_def
      split: prod.splits sum.splits)

theorem run_and_runAsync_capture_the_outcome_witness:
  "returns ''Success'' () = (Inr ''Success'' :: unit thrown + string, ())
   \<and> run (returns ''Success'' :: (unit, unit, string) comp) () = (Inr (Ok ''Success''), ())
   \<and> throws (ErrorObject ''Failure'') () = (Inl (ErrorObject ''Failure'') :: unit thrown + string, ())
   \<and> run (throws (ErrorObject ''Failure'') :: (unit, unit, string) comp) ()
        = (Inr (Err (ErrorObject ''Failure'')), ())
   \<and> returns (Fulfilled ''Success'') ()
        = (Inr (Fulfilled ''Success'') :: unit thrown + (unit, string) promise, ())
   \<and> await (fst (runAsync (returns (Fulfilled ''Success'') :: (unit, unit, (unit, string) promise) comp) ()))
        = Some (Inr (Ok ''Success''))
   \<and> returns (Rejected (ErrorObject ''Failure'')) ()
        = (Inr (Rejected (ErrorObject ''Failure'')) :: unit thrown + (unit, string) promise, ())
   \<and> await (fst (runAsync (returns (Rejected (ErrorObject ''Failure'')) :: (unit, unit, (unit, string) promise) comp) ()))
        = Some (Inr (Err (ErrorObject ''Failure'')))"
  using run_and_runAsync_capture_the_outcome
    [of "returns ''Success'' :: (unit, unit, string) comp" "()" "''Success''" "()"
        "throws (ErrorObject ''Failure'') :: (unit, unit, string) comp" "()"
        "ErrorObject ''Failure''" "()"
        "returns ''Success'' :: (unit, unit, string) comp" "()" "0"
        "returns (Fulfilled ''Success'') :: (unit, unit, (unit, string) promise) comp" "()"
        "''Success''" "()"
        "returns (Rejected (ErrorObject ''Failure'')) :: (unit, unit, (unit, string) promise) comp" "()"
        "ErrorObject ''Failure''" "()"]
  by (simp add: returns_def throws_def)

text \<open>
  C10. When the computation passed to \<open>run\<close> throws a value that is not an Error object
  (a string, a number), \<open>run\<close> returns the Err wrapping that very value: nothing converts
  it or wraps it into an Error object, and \<open>unwrapError\<close> gives the raw value back.
\<close>

theorem run_keeps_a_thrown_non_Error_value:
  "fn s = (Inl x, s') \<Longrightarrow> \<not> isErrorObject x \<Longrightarrow>
     run fn s = (Inr (Err x), s')
     \<and> call (run fn) (\<lambda>r w. (unwrapError r, w)) s = (Inr x, s')"
  by (simp add: run_def try_catch_def call_def returns_def)

theorem run_keeps_a_thrown_non_Error_value_witness:
  "throws (NonError ''boom'') () = (Inl (NonError ''boom'') :: string thrown + int, ())
   \<and> \<not> isErrorObject (NonError ''boom'')
   \<and> run (throws (NonError ''boom'') :: (unit, string, int) comp) ()
        = (Inr (Err (NonError ''boom'')), ())
   \<and> call (run (throws (NonError ''boom'') :: (unit, string, int) comp))
        (\<lambda>r w. (unwrapError r, w)) () = (Inr (NonError ''boom''), ())
   \<and> run (throws (NonError (404::int)) :: (unit, int, string) comp) ()
        = (Inr (Err (NonError 404)), ())"
  using run_keeps_a_thrown_non_Error_value
    [of "throws (NonError ''boom'') :: (unit, string, int) comp" "()" "NonError ''boom''" "()"]
    run_keeps_a_thrown_non_Error_value
    [of "throws (NonError (404::int)) :: (unit, int, string) comp" "()" "NonError 404" "()"]
  by (simp add: throws_def)

section \<open>Misuse failures\<close>

lemma map_sum_id_Inl: "map_sum id f r = Inl x \<longleftrightarrow> r = Inl x"
  by (cases r) simp_all

text \<open>
  C2, as the specification words it: \<open>unwrap\<close> on an Err fails with the message
  "called unwrap on a Failure value" and \<open>unwrapError\<close> on an Ok with "called unwrapError
  on a Success value". The Error objects the code throws carry other messages.
\<close>

theorem unwrap_messages_differ_from_the_specified_ones:
  "(unwrap (Err ''Something went wrong'' :: (int, string) Result) :: unit thrown + int)
      \<noteq> Inl (ErrorObject ''called unwrap on a Failure value'')
   \<and> (unwrapError (Ok 42 :: (int, string) Result) :: unit thrown + string)
      \<noteq> Inl (ErrorObject ''called unwrapError on a Success value'')"
  by simp

text \<open>
  C2, amended. \<open>unwrap\<close> on an Err throws, whatever the wrapped error, an Error object with
  the message "Called unwrap on an Err value", and \<open>unwrapError\<close> on an Ok throws, whatever
  the wrapped value, an Error object with the message "Called unwrapError on an Ok value".
  These are the only failures the library makes itself: any other throw out of one of the
  nine operations is the throw of the callback handed to \<open>andThen\<close>, \<open>map\<close> or \<open>mapError\<close>,
  \<open>run\<close> never throws, and the promise of \<open>runAsync\<close> is rejected only with what its
  argument threw.
\<close>

theorem misuse_failures_are_the_only_synthesized_ones:
  "unwrap (Err e) = Inl (ErrorObject ''Called unwrap on an Err value'')
   \<and> unwrapError (Ok v) = Inl (ErrorObject ''Called unwrapError on an Ok value'')
   \<and> (fst (invoke (c :: ('t, 'e, 'u, 'f, 's, 'x) method_call) this s) = Inl x \<longrightarrow>
         (c = CallUnwrap \<and> isError this \<and> x = ErrorObject ''Called unwrap on an Err value'')
       \<or> (c = CallUnwrapError \<and> isOk this
            \<and> x = ErrorObject ''Called unwrapError on an Ok value'')
       \<or> (\<exists>fn a. c = CallAndThen fn \<and> this = Ok a \<and> fst (fn a s) = Inl x)
       \<or> (\<exists>fn a. c = CallMap fn \<and> this = Ok a \<and> fst (fn a s) = Inl x)
       \<or> (\<exists>fn b. c = CallMapError fn \<and> this = Err b \<and> fst (fn b s) = Inl x))
   \<and> (\<exists>r. fst (run fn w) = Inr r)
   \<and> (fst (runAsync afn w') = Rejected y \<longrightarrow> fst (afn w') = Inl y)"
proof (intro conjI impI)
  show "unwrap (Err e) = Inl (ErrorObject ''Called unwrap on an Err value'')"
    by simp
  show "unwrapError (Ok v) = Inl (ErrorObject ''Called unwrapError on an Ok value'')"
    by simp
  show "\<exists>r. fst (run fn w) = Inr r"
    by (simp add: run_def try_catch_def call_def returns_def split: prod.split sum.split)
next
  assume "fst (runAsync afn w') = Rejected y"
  then show "fst (afn w') = Inl y"
    by (cases "afn w'"; cases "fst (afn w')"; cases "projr (fst (afn w'))")
       (auto simp add: runAsync_def)
next
  assume thrown: "fst (invoke c this s) = Inl x"
  show "(c = CallUnwrap \<and> isError this \<and> x = ErrorObject ''Called unwrap on an Err value'')
       \<or> (c = CallUnwrapError \<and> isOk this
            \<and> x = ErrorObject ''Called unwrapError on an Ok value'')
       \<or> (\<exists>fn a. c = CallAndThen fn \<and> this = Ok a \<and> fst (fn a s) = Inl x)
       \<or> (\<exists>fn a. c = CallMap fn \<and> this = Ok a \<and> fst (fn a s) = Inl x)
       \<or> (\<exists>fn b. c = CallMapError fn \<and> this = Err b \<and> fst (fn b s) = Inl x)"
  proof (cases this)
    case (Ok a)
    with thrown show ?thesis
      by (cases c)
         (auto simp add: returns_def call_def map_sum_id_Inl split: prod.splits sum.splits)
  next
    case (Err b)
    with thrown show ?thesis
      by (cases c)
         (auto simp add: returns_def call_def map_sum_id_Inl split: prod.splits sum.splits)
  qed
qed

theorem misuse_failures_are_the_only_synthesized_ones_witness:
  "fst (invoke (CallUnwrap :: (int, string, int, string, unit, unit) method_call)
          (Err ''Something went wrong'') ())
     = Inl (ErrorObject ''Called unwrap on an Err value'')
   \<and> isError (Err ''Something went wrong'' :: (int, string) Result)
   \<and> fst (runAsync (throws (ErrorObject ''Failure'') :: (unit, unit, (unit, int) promise) comp) ())
     = Rejected (ErrorObject ''Failure'')
   \<and> fst ((throws (ErrorObject ''Failure'') :: (unit, unit, (unit, int) promise) comp) ())
     = Inl (ErrorObject ''Failure'')"
  using misuse_failures_are_the_only_synthesized_ones
    [where ?'t = int and ?'e = string and ?'u = int and ?'f = string and ?'s = unit
       and ?'x = unit,
     THEN conjunct2, THEN conjunct2, THEN conjunct1,
     of CallUnwrap "Err ''Something went wrong''" "()"
        "ErrorObject ''Called unwrap on an Err value''"]
    misuse_failures_are_the_only_synthesized_ones
    [THEN conjunct2, THEN conjunct2, THEN conjunct2, THEN conjunct2,
     of "throws (ErrorObject ''Failure'') :: (unit, unit, (unit, int) promise) comp" "()"
        "ErrorObject ''Failure''"]
  by (simp add: throws_def runAsync_def)

section \<open>The closed union and its immutability\<close>

lemma invoke_leaves_receiver: "fst (snd (invoke c this s)) = this"
  by (cases c) (simp_all split: prod.split)

lemma invoke_all_leaves_receiver: "fst (invoke_all cs this s) = this"
proof (induction cs arbitrary: s)
  case Nil
  show ?case by simp
next
  case (Cons c cs)
  obtain out this' s' where step: "invoke c this s = (out, this', s')"
    by (cases "invoke c this s") auto
  from invoke_leaves_receiver [of c this s] step have "this' = this"
    by simp
  with step Cons.IH [of s'] show ?case
    by simp
qed

text \<open>
  C9. Every instance is exactly one of the two variants: it is an Ok or an Err and not
  both, and \<open>isOk\<close> answers the negation of \<open>isError\<close>. It stays so: no call of any of the
  nine operations changes the receiver (its variant and its wrapped value or error alike),
  nor does any sequence of calls, so \<open>isOk\<close> and \<open>isError\<close> give the same answers after any
  sequence of calls as at construction.
\<close>

theorem instance_is_one_variant_forever:
  "isOk r = (\<not> isError r)
   \<and> ((\<exists>v. r = Ok v) \<noteq> (\<exists>e. r = Err e))
   \<and> fst (snd (invoke c r s)) = r
   \<and> fst (invoke_all cs r s) = r
   \<and> fst (invoke CallIsOk (fst (invoke_all cs r s)) s') = Inr (RetBool (isOk r))
   \<and> fst (invoke CallIsError (fst (invoke_all cs r s)) s') = Inr (RetBool (isError r))"
  by (cases r) (simp_all add: invoke_leaves_receiver invoke_all_leaves_receiver)

end
